theory Spec2Isabelle
  imports Complex_Main
begin

section \<open>Telemetry extractor (feedback\_analyzer.py)\<close>

text \<open>
  Python numbers are modelled as real numbers: every attribute of a metrics object holds a
  Python \<open>int\<close> or \<open>float\<close>, the arithmetic of the analyzer uses only \<open>+\<close>, \<open>-\<close>, \<open>*\<close>,
  true division and comparisons, and these agree on \<open>int\<close> and \<open>float\<close> operands up to
  the rounding of binary floating point, which the model does not have.
\<close>

subsection \<open>FuzzingMetrics\<close>

record FuzzingMetrics =
  coverage :: real
  unique_crashes :: real
  unique_hangs :: real
  total_execs :: real
  execs_per_sec :: real
  paths_total :: real
  paths_found :: real
  pending_favs :: real
  pending_total :: real
  bitmap_cvg :: real
  stability :: real
  levels :: real
  last_crash :: real
  last_hang :: real
  last_path :: real
  cycles_done :: real

text \<open>\<open>FuzzingMetrics.__init__\<close>: every attribute starts at zero.\<close>

definition FuzzingMetrics_init :: FuzzingMetrics where
  "FuzzingMetrics_init =
     \<lparr>coverage = 0, unique_crashes = 0, unique_hangs = 0, total_execs = 0,
      execs_per_sec = 0, paths_total = 0, paths_found = 0, pending_favs = 0,
      pending_total = 0, bitmap_cvg = 0, stability = 0, levels = 0, last_crash = 0,
      last_hang = 0, last_path = 0, cycles_done = 0\<rparr>"

subsection \<open>FeedbackAnalyzer\<close>

text \<open>
  The analyzer object. The stats file itself is not part of the object: each poll receives
  what the file system holds at that moment. \<open>time.time()\<close> is an argument of the
  operations that read the clock.
\<close>

record FeedbackAnalyzer =
  history_size :: int
  metrics_history :: "FuzzingMetrics list"
  last_update_time :: real
  baseline_metrics :: "FuzzingMetrics option"

definition FeedbackAnalyzer_init :: "int \<Rightarrow> real \<Rightarrow> FeedbackAnalyzer" where
  "FeedbackAnalyzer_init hsize now =
     \<lparr>history_size = hsize, metrics_history = [], last_update_time = now,
      baseline_metrics = None\<rparr>"

subsection \<open>parse\_fuzzer\_stats\<close>

text \<open>
  The text of the stats file is a list of characters, each a code point below 256.
  \<open>is_space\<close> is the class \<open>\s\<close> of Python's \<open>re\<close> on such code points and
  \<open>is_digit\<close> is the class \<open>\d\<close>.
\<close>

definition is_space :: "char \<Rightarrow> bool" where
  "is_space c =
     (let n = (of_char c :: nat)
      in (9 \<le> n \<and> n \<le> 13) \<or> (28 \<le> n \<and> n \<le> 32) \<or> n = 133 \<or> n = 160)"

definition is_digit :: "char \<Rightarrow> bool" where
  "is_digit c = (let n = (of_char c :: nat) in 48 \<le> n \<and> n \<le> 57)"

definition is_digit_or_dot :: "char \<Rightarrow> bool" where
  "is_digit_or_dot c = (is_digit c \<or> c = CHR ''.'')"

text \<open>
  The twelve patterns all have the shape \<open>key\s*:\s*(CLASS+)\<close>, two of them followed by
  \<open>%\<close>, where CLASS is \<open>\d\<close> or \<open>[\d.]\<close>. A pattern is the attribute it sets, the
  key, whether the class admits the dot, and whether the percent sign must follow.
\<close>

datatype metric_attr =
  Attr_total_execs | Attr_execs_per_sec | Attr_paths_total | Attr_unique_crashes
  | Attr_unique_hangs | Attr_bitmap_cvg | Attr_stability | Attr_pending_favs
  | Attr_pending_total | Attr_cycles_done | Attr_last_crash | Attr_last_path

record stat_pattern =
  pat_attr :: metric_attr
  pat_key :: string
  pat_dot :: bool
  pat_percent :: bool

definition patterns :: "stat_pattern list" where
  "patterns =
     [\<lparr>pat_attr = Attr_total_execs, pat_key = ''execs_done'', pat_dot = False, pat_percent = False\<rparr>,
      \<lparr>pat_attr = Attr_execs_per_sec, pat_key = ''execs_per_sec'', pat_dot = True, pat_percent = False\<rparr>,
      \<lparr>pat_attr = Attr_paths_total, pat_key = ''paths_total'', pat_dot = False, pat_percent = False\<rparr>,
      \<lparr>pat_attr = Attr_unique_crashes, pat_key = ''saved_crashes'', pat_dot = False, pat_percent = False\<rparr>,
      \<lparr>pat_attr = Attr_unique_hangs, pat_key = ''saved_hangs'', pat_dot = False, pat_percent = False\<rparr>,
      \<lparr>pat_attr = Attr_bitmap_cvg, pat_key = ''bitmap_cvg'', pat_dot = True, pat_percent = True\<rparr>,
      \<lparr>pat_attr = Attr_stability, pat_key = ''stability'', pat_dot = True, pat_percent = True\<rparr>,
      \<lparr>pat_attr = Attr_pending_favs, pat_key = ''pending_favs'', pat_dot = False, pat_percent = False\<rparr>,
      \<lparr>pat_attr = Attr_pending_total, pat_key = ''pending_total'', pat_dot = False, pat_percent = False\<rparr>,
      \<lparr>pat_attr = Attr_cycles_done, pat_key = ''cycles_done'', pat_dot = False, pat_percent = False\<rparr>,
      \<lparr>pat_attr = Attr_last_crash, pat_key = ''last_crash'', pat_dot = False, pat_percent = False\<rparr>,
      \<lparr>pat_attr = Attr_last_path, pat_key = ''last_path'', pat_dot = False, pat_percent = False\<rparr>]"

text \<open>
  A match of a pattern that starts at the head of the text, returning group 1. The three
  greedy repetitions never need to give back a character: what has to follow each of them
  (the colon, a character of the class, the percent sign or nothing) lies outside the class
  that was repeated.
\<close>

definition match_here :: "stat_pattern \<Rightarrow> string \<Rightarrow> string option" where
  "match_here p s =
     (if take (length (pat_key p)) s = pat_key p then
        (case dropWhile is_space (drop (length (pat_key p)) s) of
           [] \<Rightarrow> None
         | c # r \<Rightarrow>
             if c = CHR '':'' then
               (let r' = dropWhile is_space r;
                    cls = (if pat_dot p then is_digit_or_dot else is_digit);
                    tok = takeWhile cls r';
                    rest = dropWhile cls r'
                in if tok = [] then None
                   else if pat_percent p then
                     (case rest of [] \<Rightarrow> None
                      | d # _ \<Rightarrow> if d = CHR ''%'' then Some tok else None)
                   else Some tok)
             else None)
      else None)"

text \<open>\<open>re.search\<close>: the match at the leftmost position that has one.\<close>

fun re_search :: "stat_pattern \<Rightarrow> string \<Rightarrow> string option" where
  "re_search p [] = match_here p []"
| "re_search p (c # cs) =
     (case match_here p (c # cs) of
        Some tok \<Rightarrow> Some tok
      | None \<Rightarrow> re_search p cs)"

text \<open>
  \<open>float(value)\<close> and \<open>int(value)\<close> on a token, \<open>None\<close> for \<open>ValueError\<close>. A token is
  a non-empty string of digits and dots, and on these \<open>float\<close> accepts exactly the ones
  with a single dot and at least one digit, and \<open>int\<close> the ones without a dot. The limit
  some interpreters put on the number of digits \<open>int\<close> reads is not modelled.
\<close>

definition digits_value :: "string \<Rightarrow> nat" where
  "digits_value ds = foldl (\<lambda>acc c. 10 * acc + (of_char c - 48)) 0 ds"

definition py_float :: "string \<Rightarrow> real option" where
  "py_float v =
     (let ip = takeWhile is_digit v; r = dropWhile is_digit v
      in case r of
           [] \<Rightarrow> if ip = [] then None else Some (real (digits_value ip))
         | c # fp \<Rightarrow>
             if c = CHR ''.'' \<and> list_all is_digit fp \<and> \<not> (ip = [] \<and> fp = [])
             then Some (real (digits_value ip) + real (digits_value fp) / 10 ^ length fp)
             else None)"

definition py_int :: "string \<Rightarrow> real option" where
  "py_int v = (if v \<noteq> [] \<and> list_all is_digit v then Some (real (digits_value v)) else None)"

definition convert :: "string \<Rightarrow> real option" where
  "convert v = (if CHR ''.'' \<in> set v then py_float v else py_int v)"

fun setattr :: "metric_attr \<Rightarrow> real \<Rightarrow> FuzzingMetrics \<Rightarrow> FuzzingMetrics" where
  "setattr Attr_total_execs v m = m\<lparr>total_execs := v\<rparr>"
| "setattr Attr_execs_per_sec v m = m\<lparr>execs_per_sec := v\<rparr>"
| "setattr Attr_paths_total v m = m\<lparr>paths_total := v\<rparr>"
| "setattr Attr_unique_crashes v m = m\<lparr>unique_crashes := v\<rparr>"
| "setattr Attr_unique_hangs v m = m\<lparr>unique_hangs := v\<rparr>"
| "setattr Attr_bitmap_cvg v m = m\<lparr>bitmap_cvg := v\<rparr>"
| "setattr Attr_stability v m = m\<lparr>stability := v\<rparr>"
| "setattr Attr_pending_favs v m = m\<lparr>pending_favs := v\<rparr>"
| "setattr Attr_pending_total v m = m\<lparr>pending_total := v\<rparr>"
| "setattr Attr_cycles_done v m = m\<lparr>cycles_done := v\<rparr>"
| "setattr Attr_last_crash v m = m\<lparr>last_crash := v\<rparr>"
| "setattr Attr_last_path v m = m\<lparr>last_path := v\<rparr>"

text \<open>Reading an attribute of a metrics object by its name.\<close>

fun getattr :: "metric_attr \<Rightarrow> FuzzingMetrics \<Rightarrow> real" where
  "getattr Attr_total_execs m = total_execs m"
| "getattr Attr_execs_per_sec m = execs_per_sec m"
| "getattr Attr_paths_total m = paths_total m"
| "getattr Attr_unique_crashes m = unique_crashes m"
| "getattr Attr_unique_hangs m = unique_hangs m"
| "getattr Attr_bitmap_cvg m = bitmap_cvg m"
| "getattr Attr_stability m = stability m"
| "getattr Attr_pending_favs m = pending_favs m"
| "getattr Attr_pending_total m = pending_total m"
| "getattr Attr_cycles_done m = cycles_done m"
| "getattr Attr_last_crash m = last_crash m"
| "getattr Attr_last_path m = last_path m"

text \<open>
  The loop over the patterns. A pattern without a match leaves its attribute alone; a
  conversion that raises ends the loop, and the \<open>except\<close> clause turns it into \<open>None\<close>.
\<close>

fun parse_patterns :: "stat_pattern list \<Rightarrow> string \<Rightarrow> FuzzingMetrics \<Rightarrow> FuzzingMetrics option" where
  "parse_patterns [] content metrics = Some metrics"
| "parse_patterns (p # ps) content metrics =
     (case re_search p content of
        None \<Rightarrow> parse_patterns ps content metrics
      | Some v \<Rightarrow>
          (case convert v of
             None \<Rightarrow> None
           | Some x \<Rightarrow> parse_patterns ps content (setattr (pat_attr p) x metrics)))"

text \<open>
  What a poll finds at the path of the stats file: no file, a file whose \<open>open\<close> or
  \<open>read\<close> raises, or a text.
\<close>

datatype stats_file = Missing | Unreadable | Content string

definition parse_fuzzer_stats :: "stats_file \<Rightarrow> FuzzingMetrics option" where
  "parse_fuzzer_stats f =
     (case f of
        Missing \<Rightarrow> None
      | Unreadable \<Rightarrow> None
      | Content content \<Rightarrow>
          (case parse_patterns patterns content FuzzingMetrics_init of
             None \<Rightarrow> None
           | Some metrics \<Rightarrow>
               (let metrics1 = metrics\<lparr>coverage := bitmap_cvg metrics\<rparr>
                in Some (metrics1\<lparr>paths_found := paths_total metrics1\<rparr>))))"

definition get_current_metrics :: "stats_file \<Rightarrow> FuzzingMetrics option" where
  "get_current_metrics f = parse_fuzzer_stats f"

subsection \<open>FeedbackAnalyzer.update\<close>

text \<open>
  One poll: the file found, the clock's reading, the analyzer before; the returned flag and
  the analyzer after. \<open>pop(0)\<close> runs on a list that has just been appended to.
\<close>

definition FeedbackAnalyzer_update ::
  "stats_file \<Rightarrow> real \<Rightarrow> FeedbackAnalyzer \<Rightarrow> bool \<times> FeedbackAnalyzer" where
  "FeedbackAnalyzer_update f now self =
     (case get_current_metrics f of
        None \<Rightarrow> (False, self)
      | Some metrics \<Rightarrow>
          (let h1 = metrics_history self @ [metrics];
               h2 = (if int (length h1) > history_size self then tl h1 else h1);
               b = (case baseline_metrics self of None \<Rightarrow> Some metrics | Some m0 \<Rightarrow> Some m0)
           in (True, self\<lparr>metrics_history := h2, baseline_metrics := b,
                           last_update_time := now\<rparr>)))"


subsection \<open>get\_state\_vector\<close>

text \<open>
  \<open>metrics_history[-1]\<close> and \<open>metrics_history[-2]\<close> are read only behind the length
  checks of the source, so the indices are in range where they are used.
\<close>

definition get_state_vector :: "FeedbackAnalyzer \<Rightarrow> real list" where
  "get_state_vector self =
     (let h = metrics_history self in
      if length h = 0 then replicate 10 0
      else
        let current = h ! (length h - 1);
            (coverage_rate, crash_rate, path_rate) =
              (if length h \<ge> 2 then
                 let previous = h ! (length h - 2);
                     time_delta = max (last_update_time self - (last_update_time self - 60)) 1
                 in ((coverage current - coverage previous) / time_delta,
                     (unique_crashes current - unique_crashes previous) / time_delta,
                     (paths_total current - paths_total previous) / time_delta)
               else (0, 0, 0))
        in [coverage current / 100,
            coverage_rate,
            unique_crashes current / 100,
            crash_rate,
            execs_per_sec current / 1000,
            paths_total current / 1000,
            path_rate,
            stability current / 100,
            cycles_done current / 10,
            pending_favs current / 100])"

subsection \<open>compute\_reward\<close>

definition compute_reward :: "FeedbackAnalyzer \<Rightarrow> real" where
  "compute_reward self =
     (let h = metrics_history self in
      if length h < 2 then 0
      else
        let current = h ! (length h - 1);
            previous = h ! (length h - 2);
            coverage_reward = (coverage current - coverage previous) * 10;
            crash_reward = (unique_crashes current - unique_crashes previous) * 50;
            path_reward = (paths_total current - paths_total previous) * 1;
            speed_reward = min (execs_per_sec current / 1000) 1 * 0.5;
            stability_reward = (stability current / 100) * 0.5
        in coverage_reward + crash_reward + path_reward + speed_reward + stability_reward)"

definition get_state_and_reward :: "FeedbackAnalyzer \<Rightarrow> real list \<times> real" where
  "get_state_and_reward self = (get_state_vector self, compute_reward self)"

subsection \<open>is\_done\<close>

definition is_done :: "FeedbackAnalyzer \<Rightarrow> bool" where
  "is_done self =
     (let h = metrics_history self in
      if length h = 0 then False
      else
        let current = h ! (length h - 1) in
        if int (length h) \<ge> history_size self then
          (let first = h ! 0 in
           if coverage current \<le> coverage first \<and> paths_total current \<le> paths_total first
           then True else False)
        else False)"

text \<open>The two snapshots of the reward scenario; the fields it does not name keep their
  initial value.\<close>

definition scenario_previous :: FuzzingMetrics where
  "scenario_previous =
     FuzzingMetrics_init\<lparr>coverage := 10.0, unique_crashes := 2, paths_total := 100,
       execs_per_sec := 500, stability := 95\<rparr>"

definition scenario_current :: FuzzingMetrics where
  "scenario_current =
     FuzzingMetrics_init\<lparr>coverage := 12.5, unique_crashes := 3, paths_total := 130,
       execs_per_sec := 520, stability := 96\<rparr>"

subsection \<open>Concrete inputs\<close>

text \<open>A stats file cut off in the middle of its coverage line, as a read during a
  rewrite of the file can find it.\<close>

definition partial_stats_text :: string where
  "partial_stats_text = ''execs_done        : 1000'' @ [CHR 0x0A] @ ''bitmap_cvg        : 4''"

section \<open>Strategy catalog (mutation\_selector.py)\<close>

text \<open>The exceptions that the modelled code can raise.\<close>

datatype py_error =
  IndexError | KeyError | ValueError | ZeroDivisionError | RuntimeError | FileNotFoundError

datatype MutationStrategy =
  BITFLIP | BYTEFLIP | ARITHMETIC | INTERESTING | HAVOC_LIGHT | HAVOC_MEDIUM | HAVOC_HEAVY
  | SPLICE

text \<open>The value of each member of the \<open>IntEnum\<close>, and the members in definition order.\<close>

fun strategy_value :: "MutationStrategy \<Rightarrow> int" where
  "strategy_value BITFLIP = 0"
| "strategy_value BYTEFLIP = 1"
| "strategy_value ARITHMETIC = 2"
| "strategy_value INTERESTING = 3"
| "strategy_value HAVOC_LIGHT = 4"
| "strategy_value HAVOC_MEDIUM = 5"
| "strategy_value HAVOC_HEAVY = 6"
| "strategy_value SPLICE = 7"

definition all_strategies :: "MutationStrategy list" where
  "all_strategies =
     [BITFLIP, BYTEFLIP, ARITHMETIC, INTERESTING, HAVOC_LIGHT, HAVOC_MEDIUM, HAVOC_HEAVY, SPLICE]"

text \<open>\<open>MutationStrategy(action)\<close>: the member with that value, \<open>ValueError\<close> when there
  is none.\<close>

definition MutationStrategy_of :: "int \<Rightarrow> py_error + MutationStrategy" where
  "MutationStrategy_of v =
     (case find (\<lambda>s. strategy_value s = v) all_strategies of
        None \<Rightarrow> Inl ValueError
      | Some s \<Rightarrow> Inr s)"

record StrategyStats =
  times_selected :: int
  coverage_gains :: real
  crashes_found :: real
  paths_found_total :: real

definition StrategyStats_init :: StrategyStats where
  "StrategyStats_init =
     \<lparr>times_selected = 0, coverage_gains = 0, crashes_found = 0, paths_found_total = 0\<rparr>"

record MutationStrategySelector =
  num_strategies :: int
  strategy_stats :: "MutationStrategy \<rightharpoonup> StrategyStats"
  current_strategy :: "MutationStrategy option"
  strategy_history :: "MutationStrategy list"

definition MutationStrategySelector_init :: MutationStrategySelector where
  "MutationStrategySelector_init =
     \<lparr>num_strategies = int (length all_strategies),
      strategy_stats = map_of (map (\<lambda>s. (s, StrategyStats_init)) all_strategies),
      current_strategy = None,
      strategy_history = []\<rparr>"

definition get_num_actions :: "MutationStrategySelector \<Rightarrow> int" where
  "get_num_actions self = num_strategies self"

text \<open>
  \<open>select_strategy\<close> returns the strategy, or the exception raised, and the selector as
  the call leaves it: the current strategy and the history are written before the counter
  of the strategy is looked up.
\<close>

definition select_strategy ::
  "int \<Rightarrow> MutationStrategySelector \<Rightarrow> (py_error + MutationStrategy) \<times> MutationStrategySelector" where
  "select_strategy action self =
     (let action1 = (if action < 0 \<or> action \<ge> num_strategies self
                     then strategy_value HAVOC_MEDIUM else action)
      in case MutationStrategy_of action1 of
           Inl e \<Rightarrow> (Inl e, self)
         | Inr strategy \<Rightarrow>
             (let self1 = self\<lparr>current_strategy := Some strategy,
                                strategy_history := strategy_history self @ [strategy]\<rparr>
              in case strategy_stats self1 strategy of
                   None \<Rightarrow> (Inl KeyError, self1)
                 | Some st \<Rightarrow>
                     (Inr strategy,
                      self1\<lparr>strategy_stats :=
                        (strategy_stats self1)
                          (strategy \<mapsto> st\<lparr>times_selected := times_selected st + 1\<rparr>)\<rparr>)))"

text \<open>The configuration payloads: a dictionary from option names to values of mixed
  type, kept as an association list in the order of the source.\<close>

datatype cfg_value = CBool bool | CInt int | CStr string | CFloat real

definition configs :: "(MutationStrategy \<times> (string \<times> cfg_value) list) list" where
  "configs =
     [(BITFLIP,
        [(''deterministic_mode'', CBool True), (''skip_deterministic'', CBool False),
         (''havoc_cycles'', CInt 0), (''splice_cycles'', CInt 0), (''focus_on'', CStr ''bitflip'')]),
      (BYTEFLIP,
        [(''deterministic_mode'', CBool True), (''skip_deterministic'', CBool False),
         (''havoc_cycles'', CInt 0), (''splice_cycles'', CInt 0), (''focus_on'', CStr ''byteflip'')]),
      (ARITHMETIC,
        [(''deterministic_mode'', CBool True), (''skip_deterministic'', CBool False),
         (''havoc_cycles'', CInt 0), (''splice_cycles'', CInt 0), (''focus_on'', CStr ''arithmetic'')]),
      (INTERESTING,
        [(''deterministic_mode'', CBool True), (''skip_deterministic'', CBool False),
         (''havoc_cycles'', CInt 0), (''splice_cycles'', CInt 0), (''focus_on'', CStr ''interesting'')]),
      (HAVOC_LIGHT,
        [(''deterministic_mode'', CBool False), (''skip_deterministic'', CBool True),
         (''havoc_cycles'', CInt 64), (''splice_cycles'', CInt 0), (''havoc_stack_pow'', CInt 2)]),
      (HAVOC_MEDIUM,
        [(''deterministic_mode'', CBool False), (''skip_deterministic'', CBool True),
         (''havoc_cycles'', CInt 256), (''splice_cycles'', CInt 32), (''havoc_stack_pow'', CInt 4)]),
      (HAVOC_HEAVY,
        [(''deterministic_mode'', CBool False), (''skip_deterministic'', CBool True),
         (''havoc_cycles'', CInt 1024), (''splice_cycles'', CInt 128), (''havoc_stack_pow'', CInt 7)]),
      (SPLICE,
        [(''deterministic_mode'', CBool False), (''skip_deterministic'', CBool True),
         (''havoc_cycles'', CInt 64), (''splice_cycles'', CInt 512),
         (''splice_probability'', CFloat 0.8)])]"

text \<open>\<open>configs.get(strategy, configs[HAVOC_MEDIUM])\<close>: the default is looked up first,
  and a missing key there would be a \<open>KeyError\<close>.\<close>

definition get_afl_mutation_config ::
  "MutationStrategy \<Rightarrow> py_error + (string \<times> cfg_value) list" where
  "get_afl_mutation_config strategy =
     (case map_of configs HAVOC_MEDIUM of
        None \<Rightarrow> Inl KeyError
      | Some dflt \<Rightarrow>
          (case map_of configs strategy of
             None \<Rightarrow> Inr dflt
           | Some c \<Rightarrow> Inr c))"

definition descriptions :: "(MutationStrategy \<times> string) list" where
  "descriptions =
     [(BITFLIP, ''Flip individual bits in the input (deterministic exploration)''),
      (BYTEFLIP, ''Flip entire bytes in the input (faster than bitflip)''),
      (ARITHMETIC, ''Add or subtract small values to bytes/words''),
      (INTERESTING, ''Replace with known interesting values (0, -1, MAX_INT, etc.)''),
      (HAVOC_LIGHT, ''Apply few random mutations (fast, less thorough)''),
      (HAVOC_MEDIUM, ''Apply moderate random mutations (balanced)''),
      (HAVOC_HEAVY, ''Apply many random mutations (slow, very thorough)''),
      (SPLICE, ''Combine parts of different test cases'')]"

definition get_strategy_description :: "MutationStrategy \<Rightarrow> string" where
  "get_strategy_description strategy =
     (case map_of descriptions strategy of
        None \<Rightarrow> ''Unknown strategy''
      | Some d \<Rightarrow> d)"

definition update_strategy_stats ::
  "real \<Rightarrow> real \<Rightarrow> real \<Rightarrow> MutationStrategySelector \<Rightarrow> (py_error + unit) \<times> MutationStrategySelector" where
  "update_strategy_stats coverage_gain crashes paths self =
     (case current_strategy self of
        None \<Rightarrow> (Inr (), self)
      | Some cur \<Rightarrow>
          (case strategy_stats self cur of
             None \<Rightarrow> (Inl KeyError, self)
           | Some st \<Rightarrow>
               (Inr (),
                self\<lparr>strategy_stats :=
                  (strategy_stats self)
                    (cur \<mapsto> st\<lparr>coverage_gains := coverage_gains st + coverage_gain,
                               crashes_found := crashes_found st + crashes,
                               paths_found_total := paths_found_total st + paths\<rparr>)\<rparr>)))"

definition reset_stats :: "MutationStrategySelector \<Rightarrow> MutationStrategySelector" where
  "reset_stats self =
     self\<lparr>strategy_stats :=
            fold (\<lambda>s m. m(s \<mapsto> StrategyStats_init)) all_strategies (strategy_stats self),
          strategy_history := []\<rparr>"

text \<open>The invariant that the constructor sets up and every operation keeps: eight
  strategies, each with an entry in the statistics.\<close>

definition selector_ok :: "MutationStrategySelector \<Rightarrow> bool" where
  "selector_ok self =
     (num_strategies self = 8 \<and> list_all (\<lambda>s. strategy_stats self s \<noteq> None) all_strategies)"

section \<open>Actor-critic model and PPO trainer (ppo\_agent.py)\<close>

subsection \<open>PPONetwork\<close>

text \<open>
  Tensors are lists of reals. A linear layer holds its weight matrix, one row for each
  output, and its bias; applied to a vector it raises \<open>RuntimeError\<close> when the shapes
  do not fit.
\<close>

record Linear =
  weight :: "real list list"
  bias :: "real list"

definition Linear_call :: "Linear \<Rightarrow> real list \<Rightarrow> py_error + real list" where
  "Linear_call l x =
     (if list_all (\<lambda>row. length row = length x) (weight l) \<and> length (bias l) = length (weight l)
      then Inr (map2 (\<lambda>row b. sum_list (map2 (*) row x) + b) (weight l) (bias l))
      else Inl RuntimeError)"

definition relu :: "real list \<Rightarrow> real list" where
  "relu x = map (max 0) x"

record PPONetwork =
  shared_fc1 :: Linear
  shared_fc2 :: Linear
  actor_fc :: Linear
  actor_out :: Linear
  critic_fc :: Linear
  critic_out :: Linear

definition forward :: "PPONetwork \<Rightarrow> real list \<Rightarrow> py_error + (real list \<times> real list)" where
  "forward net state =
     (case Linear_call (shared_fc1 net) state of Inl e \<Rightarrow> Inl e | Inr x1 \<Rightarrow>
     (case Linear_call (shared_fc2 net) (relu x1) of Inl e \<Rightarrow> Inl e | Inr x2 \<Rightarrow>
     (case Linear_call (actor_fc net) (relu x2) of Inl e \<Rightarrow> Inl e | Inr actor \<Rightarrow>
     (case Linear_call (actor_out net) (relu actor) of Inl e \<Rightarrow> Inl e | Inr action_logits \<Rightarrow>
     (case Linear_call (critic_fc net) (relu x2) of Inl e \<Rightarrow> Inl e | Inr critic \<Rightarrow>
     (case Linear_call (critic_out net) (relu critic) of Inl e \<Rightarrow> Inl e | Inr state_value \<Rightarrow>
        Inr (action_logits, state_value)))))))"

definition softmax :: "real list \<Rightarrow> real list" where
  "softmax xs = map (\<lambda>x. exp x / sum_list (map exp xs)) xs"

text \<open>\<open>torch.argmax\<close>: the index of the first maximal entry; an empty tensor has none.\<close>

fun argmax_from :: "nat \<Rightarrow> real \<Rightarrow> nat \<Rightarrow> real list \<Rightarrow> nat" where
  "argmax_from best_i best i [] = best_i"
| "argmax_from best_i best i (x # xs) =
     (if x > best then argmax_from i x (Suc i) xs else argmax_from best_i best (Suc i) xs)"

definition argmax :: "real list \<Rightarrow> py_error + nat" where
  "argmax xs = (case xs of [] \<Rightarrow> Inl IndexError | x # r \<Rightarrow> Inr (argmax_from 0 x 1 r))"

text \<open>\<open>tensor.item()\<close>: the single entry of a one-element tensor.\<close>

definition item :: "real list \<Rightarrow> py_error + real" where
  "item t = (case t of [x] \<Rightarrow> Inr x | _ \<Rightarrow> Inl RuntimeError)"

subsection \<open>What the library and the random source supply\<close>

text \<open>
  The parts of a run that are not code of the repository are arguments of the model: the
  log-probability and the random draw of \<open>torch.distributions.Categorical\<close>, the
  permutation \<open>np.random.permutation\<close> returns in each epoch, and the work done on one
  minibatch (evaluating the batch under the current parameters, the losses, the backward
  pass, the clipping of the gradient and the optimizer's step), which receives the
  coefficients \<open>clip_epsilon\<close>, \<open>value_coef\<close>, \<open>entropy_coef\<close> and \<open>max_grad_norm\<close>, the
  network, the optimizer and the batch, and returns the new network and optimizer with the
  policy loss, the value loss and the mean entropy of the batch. The optimizer's state is
  a type parameter.
\<close>

record minibatch =
  batch_states :: "real list list"
  batch_actions :: "nat list"
  batch_old_log_probs :: "real list"
  batch_advantages :: "real list"
  batch_returns :: "real list"

record 'opt externals =
  Categorical_log_prob :: "real list \<Rightarrow> nat \<Rightarrow> real"
  Categorical_sample :: "real list \<Rightarrow> nat"
  random_permutation :: "nat \<Rightarrow> nat \<Rightarrow> nat list"
  optimize_minibatch ::
    "real \<times> real \<times> real \<times> real \<Rightarrow> PPONetwork \<Rightarrow> 'opt \<Rightarrow> minibatch
       \<Rightarrow> py_error + (PPONetwork \<times> 'opt \<times> real \<times> real \<times> real)"

definition get_action ::
  "'opt externals \<Rightarrow> PPONetwork \<Rightarrow> real list \<Rightarrow> bool \<Rightarrow> py_error + (nat \<times> real \<times> real list)" where
  "get_action X net state deterministic =
     (case forward net state of
        Inl e \<Rightarrow> Inl e
      | Inr (action_logits, value) \<Rightarrow>
          (let action_probs = softmax action_logits in
           if deterministic then
             (case argmax action_probs of
                Inl e \<Rightarrow> Inl e
              | Inr action \<Rightarrow> Inr (action, Categorical_log_prob X action_probs action, value))
           else
             (let action = Categorical_sample X action_probs
              in Inr (action, Categorical_log_prob X action_probs action, value))))"

subsection \<open>PPOAgent\<close>

record 'opt PPOAgent =
  gamma :: real
  gae_lambda :: real
  clip_epsilon :: real
  value_coef :: real
  entropy_coef :: real
  max_grad_norm :: real
  network :: PPONetwork
  optimizer :: 'opt
  states :: "real list list"
  actions :: "nat list"
  log_probs :: "real list"
  rewards :: "real list"
  values' :: "real list"
  dones :: "bool list"

text \<open>\<open>select_action\<close> returns the action, or the exception raised, and the agent as the
  call leaves it: the four appends run in the order of the source, the last one after
  \<open>value.item()\<close>.\<close>

definition select_action ::
  "'opt externals \<Rightarrow> real list \<Rightarrow> bool \<Rightarrow> 'opt PPOAgent \<Rightarrow> (py_error + nat) \<times> 'opt PPOAgent" where
  "select_action X state deterministic self =
     (case get_action X (network self) state deterministic of
        Inl e \<Rightarrow> (Inl e, self)
      | Inr (action, log_prob, value) \<Rightarrow>
          (let self1 = self\<lparr>states := states self @ [state],
                             actions := actions self @ [action],
                             log_probs := log_probs self @ [log_prob]\<rparr>
           in case item value of
                Inl e \<Rightarrow> (Inl e, self1)
              | Inr v \<Rightarrow> (Inr action, self1\<lparr>values' := values' self1 @ [v]\<rparr>)))"

definition store_transition :: "real \<Rightarrow> bool \<Rightarrow> 'opt PPOAgent \<Rightarrow> 'opt PPOAgent" where
  "store_transition reward done self =
     self\<lparr>rewards := rewards self @ [reward], dones := dones self @ [done]\<rparr>"

definition clear_buffer :: "'opt PPOAgent \<Rightarrow> 'opt PPOAgent" where
  "clear_buffer self =
     self\<lparr>states := [], actions := [], log_probs := [], rewards := [], values' := [],
          dones := []\<rparr>"

subsection \<open>compute\_gae\<close>

text \<open>
  The backward loop over \<open>t\<close>. \<open>vals\<close> is the array of the stored values followed by
  \<open>next_value\<close>; an index past the end of an array is an \<open>IndexError\<close>. The loop
  variable only takes indices of \<open>rewards\<close>, so \<open>rewards[t]\<close> and \<open>advantages[t]\<close> are in
  range.
\<close>

fun gae_loop ::
  "real \<Rightarrow> real \<Rightarrow> real list \<Rightarrow> real list \<Rightarrow> bool list \<Rightarrow> real \<Rightarrow> nat list \<Rightarrow> real list \<Rightarrow> real
     \<Rightarrow> py_error + real list" where
  "gae_loop g lam vals rews dns next_value [] advantages last_gae = Inr advantages"
| "gae_loop g lam vals rews dns next_value (t # ts) advantages last_gae =
     (if t \<ge> length dns then Inl IndexError
      else
        (let next_non_terminal = 1 - (if dns ! t then 1 else 0) in
         if t \<noteq> length rews - 1 \<and> t + 1 \<ge> length vals then Inl IndexError
         else
           (let next_value_t = (if t = length rews - 1 then next_value else vals ! (t + 1)) in
            if t \<ge> length vals then Inl IndexError
            else
              (let delta = rews ! t + g * next_value_t * next_non_terminal - vals ! t;
                   last_gae1 = delta + g * lam * next_non_terminal * last_gae
               in gae_loop g lam vals rews dns next_value ts
                    (advantages[t := last_gae1]) last_gae1))))"

text \<open>The sum of two one-dimensional arrays under numpy's broadcasting.\<close>

definition np_add :: "real list \<Rightarrow> real list \<Rightarrow> py_error + real list" where
  "np_add a b =
     (if length a = length b then Inr (map2 (+) a b)
      else if length a = 1 then Inr (map (\<lambda>y. hd a + y) b)
      else if length b = 1 then Inr (map (\<lambda>x. x + hd b) a)
      else Inl ValueError)"

definition compute_gae :: "real \<Rightarrow> 'opt PPOAgent \<Rightarrow> py_error + (real list \<times> real list)" where
  "compute_gae next_value self =
     (let vals = values' self @ [next_value];
          rews = rewards self;
          dns = dones self;
          advantages0 = replicate (length rews) 0
      in case gae_loop (gamma self) (gae_lambda self) vals rews dns next_value
                (rev [0..<length rews]) advantages0 0 of
           Inl e \<Rightarrow> Inl e
         | Inr advantages \<Rightarrow>
             (case np_add advantages (butlast vals) of
                Inl e \<Rightarrow> Inl e
              | Inr returns \<Rightarrow> Inr (advantages, returns)))"

subsection \<open>PPOAgent.update\<close>

definition mean :: "real list \<Rightarrow> real" where
  "mean xs = sum_list xs / real (length xs)"

definition np_std :: "real list \<Rightarrow> real" where
  "np_std xs = sqrt (mean (map (\<lambda>x. (x - mean xs)\<^sup>2) xs))"

definition normalize_advantages :: "real list \<Rightarrow> real list" where
  "normalize_advantages advantages =
     map (\<lambda>a. (a - mean advantages) / (np_std advantages + 1 / 10 ^ 8)) advantages"

text \<open>Indexing a tensor with a list of indices.\<close>

definition gather :: "'a list \<Rightarrow> nat list \<Rightarrow> py_error + 'a list" where
  "gather xs idx =
     (if list_all (\<lambda>i. i < length xs) idx then Inr (map (\<lambda>i. xs ! i) idx) else Inl IndexError)"

text \<open>\<open>range(0, stop, step)\<close>.\<close>

definition py_range_step :: "nat \<Rightarrow> int \<Rightarrow> py_error + nat list" where
  "py_range_step stop step =
     (if step = 0 then Inl ValueError
      else if step < 0 then Inr []
      else Inr (map (\<lambda>k. k * nat step) [0..<(stop + nat step - 1) div nat step]))"

record train_data =
  states_t :: "real list list"
  actions_t :: "nat list"
  old_log_probs :: "real list"
  advantages_t :: "real list"
  returns_t :: "real list"

record 'opt train_acc =
  acc_network :: PPONetwork
  acc_optimizer :: 'opt
  total_policy_loss :: real
  total_value_loss :: real
  total_entropy :: real
  n_updates :: nat

text \<open>
  The loop over the minibatches of one epoch and the loop over the epochs. Each returns
  the exception that ended it, if any, and the network, optimizer and totals reached: an
  exception in a later minibatch does not undo the steps taken before it.
\<close>

fun minibatch_loop ::
  "'opt externals \<Rightarrow> 'opt PPOAgent \<Rightarrow> train_data \<Rightarrow> nat list \<Rightarrow> int \<Rightarrow> nat list \<Rightarrow> 'opt train_acc
     \<Rightarrow> py_error option \<times> 'opt train_acc" where
  "minibatch_loop X self d indices batch_size [] acc = (None, acc)"
| "minibatch_loop X self d indices batch_size (start_idx # rest) acc =
     (let end_idx = nat (min (int start_idx + batch_size) (int (length (states_t d))));
          batch_indices = take (end_idx - start_idx) (drop start_idx indices)
      in (case gather (states_t d) batch_indices of Inl e \<Rightarrow> (Some e, acc) | Inr bs \<Rightarrow>
         (case gather (actions_t d) batch_indices of Inl e \<Rightarrow> (Some e, acc) | Inr ba \<Rightarrow>
         (case gather (old_log_probs d) batch_indices of Inl e \<Rightarrow> (Some e, acc) | Inr bl \<Rightarrow>
         (case gather (advantages_t d) batch_indices of Inl e \<Rightarrow> (Some e, acc) | Inr bad \<Rightarrow>
         (case gather (returns_t d) batch_indices of Inl e \<Rightarrow> (Some e, acc) | Inr br \<Rightarrow>
         (case optimize_minibatch X
                (clip_epsilon self, value_coef self, entropy_coef self, max_grad_norm self)
                (acc_network acc) (acc_optimizer acc)
                \<lparr>batch_states = bs, batch_actions = ba, batch_old_log_probs = bl,
                 batch_advantages = bad, batch_returns = br\<rparr> of
            Inl e \<Rightarrow> (Some e, acc)
          | Inr (net1, opt1, policy_loss, value_loss, entropy) \<Rightarrow>
              minibatch_loop X self d indices batch_size rest
                (acc\<lparr>acc_network := net1, acc_optimizer := opt1,
                     total_policy_loss := total_policy_loss acc + policy_loss,
                     total_value_loss := total_value_loss acc + value_loss,
                     total_entropy := total_entropy acc + entropy,
                     n_updates := n_updates acc + 1\<rparr>))))))))"

fun epoch_loop ::
  "'opt externals \<Rightarrow> 'opt PPOAgent \<Rightarrow> train_data \<Rightarrow> int \<Rightarrow> nat list \<Rightarrow> 'opt train_acc
     \<Rightarrow> py_error option \<times> 'opt train_acc" where
  "epoch_loop X self d batch_size [] acc = (None, acc)"
| "epoch_loop X self d batch_size (epoch # rest) acc =
     (let indices = random_permutation X epoch (length (states_t d))
      in case py_range_step (length (states_t d)) batch_size of
           Inl e \<Rightarrow> (Some e, acc)
         | Inr starts \<Rightarrow>
             (case minibatch_loop X self d indices batch_size starts acc of
                (Some e, acc1) \<Rightarrow> (Some e, acc1)
              | (None, acc1) \<Rightarrow> epoch_loop X self d batch_size rest acc1))"

text \<open>
  \<open>update\<close> returns the statistics, or the exception raised, and the agent as the call
  leaves it. The statistics are a dictionary from names to numbers, kept as an association
  list; the empty dictionary is the empty list. \<open>np.array(self.states)\<close> raises
  \<open>ValueError\<close> on states of different lengths. The division by \<open>n_updates\<close> comes
  after the buffer has been cleared. The mean of an empty array, which numpy gives as
  not-a-number, is only reached when the permutation supplied is not one of the indices of
  the buffer.
\<close>

definition PPOAgent_update ::
  "'opt externals \<Rightarrow> int \<Rightarrow> int \<Rightarrow> 'opt PPOAgent
     \<Rightarrow> (py_error + (string \<times> real) list) \<times> 'opt PPOAgent" where
  "PPOAgent_update X n_epochs batch_size self =
     (if length (states self) = 0 then (Inr [], self)
      else
        (case forward (network self) (last (states self)) of
           Inl e \<Rightarrow> (Inl e, self)
         | Inr (logits, last_value_t) \<Rightarrow>
        (case item last_value_t of
           Inl e \<Rightarrow> (Inl e, self)
         | Inr last_value \<Rightarrow>
        (case compute_gae last_value self of
           Inl e \<Rightarrow> (Inl e, self)
         | Inr (advantages0, returns) \<Rightarrow>
          (let advantages = normalize_advantages advantages0 in
           if \<not> list_all (\<lambda>s. length s = length (hd (states self))) (states self)
           then (Inl ValueError, self)
           else
             (let d = \<lparr>states_t = states self, actions_t = actions self,
                       old_log_probs = log_probs self, advantages_t = advantages,
                       returns_t = returns\<rparr>;
                  acc0 = \<lparr>acc_network = network self, acc_optimizer = optimizer self,
                          total_policy_loss = 0, total_value_loss = 0, total_entropy = 0,
                          n_updates = 0\<rparr>
              in (case epoch_loop X self d batch_size [0..<nat n_epochs] acc0 of
                    (Some e, acc) \<Rightarrow>
                      (Inl e, self\<lparr>network := acc_network acc, optimizer := acc_optimizer acc\<rparr>)
                  | (None, acc) \<Rightarrow>
                      (let self1 = clear_buffer
                             (self\<lparr>network := acc_network acc, optimizer := acc_optimizer acc\<rparr>)
                       in if n_updates acc = 0 then (Inl ZeroDivisionError, self1)
                          else
                            (Inr [(''policy_loss'', total_policy_loss acc / real (n_updates acc)),
                                  (''value_loss'', total_value_loss acc / real (n_updates acc)),
                                  (''entropy'', total_entropy acc / real (n_updates acc)),
                                  (''mean_return'', mean returns),
                                  (''mean_advantage'', mean advantages)],
                             self1)))))))))"

subsection \<open>save and load\<close>

text \<open>
  The checkpoint files: a map from paths to what \<open>torch.save\<close> wrote there. Writing is
  taken to succeed. \<open>load_state_dict\<close> raises \<open>RuntimeError\<close> when a stored tensor has
  another shape than the parameter it is for; what a call that raises leaves behind is not
  described.
\<close>

record 'opt checkpoint =
  network_state_dict :: PPONetwork
  optimizer_state_dict :: 'opt

definition save ::
  "string \<Rightarrow> 'opt PPOAgent \<Rightarrow> (string \<rightharpoonup> 'opt checkpoint) \<Rightarrow> (string \<rightharpoonup> 'opt checkpoint)" where
  "save filepath self fs =
     fs(filepath \<mapsto> \<lparr>network_state_dict = network self, optimizer_state_dict = optimizer self\<rparr>)"

definition Linear_shape :: "Linear \<Rightarrow> nat list \<times> nat" where
  "Linear_shape l = (map length (weight l), length (bias l))"

definition network_shape :: "PPONetwork \<Rightarrow> (nat list \<times> nat) list" where
  "network_shape net =
     map Linear_shape
       [shared_fc1 net, shared_fc2 net, actor_fc net, actor_out net, critic_fc net,
        critic_out net]"

definition load_state_dict :: "PPONetwork \<Rightarrow> PPONetwork \<Rightarrow> py_error + PPONetwork" where
  "load_state_dict current stored =
     (if network_shape stored = network_shape current then Inr stored else Inl RuntimeError)"

definition load ::
  "string \<Rightarrow> (string \<rightharpoonup> 'opt checkpoint) \<Rightarrow> 'opt PPOAgent \<Rightarrow> py_error + 'opt PPOAgent" where
  "load filepath fs self =
     (case fs filepath of
        None \<Rightarrow> Inl FileNotFoundError
      | Some ck \<Rightarrow>
          (case load_state_dict (network self) (network_state_dict ck) of
             Inl e \<Rightarrow> Inl e
           | Inr net \<Rightarrow> Inr (self\<lparr>network := net, optimizer := optimizer_state_dict ck\<rparr>)))"

subsection \<open>Concrete values used to run the model\<close>

text \<open>
  \<open>PPOAgent.__init__\<close> with the default coefficients. The network it builds has randomly
  initialised weights and the optimizer is the library's, so both are arguments.
\<close>

definition PPOAgent_init :: "PPONetwork \<Rightarrow> 'opt \<Rightarrow> 'opt PPOAgent" where
  "PPOAgent_init net opt =
     \<lparr>gamma = 0.99, gae_lambda = 0.95, clip_epsilon = 0.2, value_coef = 0.5,
      entropy_coef = 0.01, max_grad_norm = 0.5, network = net, optimizer = opt,
      states = [], actions = [], log_probs = [], rewards = [], values' = [], dones = []\<rparr>"

text \<open>A network of the shape \<open>PPONetwork(state_dim, action_dim, hidden_dim)\<close> builds,
  with every parameter zero.\<close>

definition Linear_zero :: "nat \<Rightarrow> nat \<Rightarrow> Linear" where
  "Linear_zero in_features out_features =
     \<lparr>weight = replicate out_features (replicate in_features 0),
      bias = replicate out_features 0\<rparr>"

definition PPONetwork_zero :: "nat \<Rightarrow> nat \<Rightarrow> nat \<Rightarrow> PPONetwork" where
  "PPONetwork_zero state_dim action_dim hidden_dim =
     \<lparr>shared_fc1 = Linear_zero state_dim hidden_dim,
      shared_fc2 = Linear_zero hidden_dim hidden_dim,
      actor_fc = Linear_zero hidden_dim (hidden_dim div 2),
      actor_out = Linear_zero (hidden_dim div 2) action_dim,
      critic_fc = Linear_zero hidden_dim (hidden_dim div 2),
      critic_out = Linear_zero (hidden_dim div 2) 1\<rparr>"

text \<open>
  One possible behaviour of the library: the log-probability is the logarithm of the
  entry, the draw is the first action, the permutation is the identity, and the step on a
  minibatch leaves the parameters where they are and reports zero losses.
\<close>

definition plain_externals :: "unit externals" where
  "plain_externals =
     \<lparr>Categorical_log_prob = (\<lambda>probs a. ln (probs ! a)),
      Categorical_sample = (\<lambda>probs. 0),
      random_permutation = (\<lambda>epoch n. [0..<n]),
      optimize_minibatch = (\<lambda>coefs net opt batch. Inr (net, opt, 0, 0, 0))\<rparr>"

text \<open>The agent after one deterministic decision on the zero state and a reward of 1: a
  buffer of one transition.\<close>

definition one_transition_agent :: "unit PPOAgent" where
  "one_transition_agent =
     store_transition 1 False
       (snd (select_action plain_externals (replicate 10 0) True
               (PPOAgent_init (PPONetwork_zero 10 8 2) ())))"

section \<open>Control loop (fuzzing\_controller.py)\<close>

text \<open>
  The controller owns the agent, the analyzer and the selector, and counts episodes and
  updates. The dictionary a training step returns has values of mixed type and is kept as
  an association list.
\<close>

record 'opt FuzzingController =
  agent :: "'opt PPOAgent"
  feedback_analyzer :: FeedbackAnalyzer
  mutation_selector :: MutationStrategySelector
  episodes :: int
  total_updates :: int

datatype stat_value = VInt int | VReal real | VStr string | VBool bool | VList "real list"

fun strategy_name :: "MutationStrategy \<Rightarrow> string" where
  "strategy_name BITFLIP = ''BITFLIP''"
| "strategy_name BYTEFLIP = ''BYTEFLIP''"
| "strategy_name ARITHMETIC = ''ARITHMETIC''"
| "strategy_name INTERESTING = ''INTERESTING''"
| "strategy_name HAVOC_LIGHT = ''HAVOC_LIGHT''"
| "strategy_name HAVOC_MEDIUM = ''HAVOC_MEDIUM''"
| "strategy_name HAVOC_HEAVY = ''HAVOC_HEAVY''"
| "strategy_name SPLICE = ''SPLICE''"

text \<open>\<open>d[k] = v\<close> on a dictionary, and \<open>d.update(e)\<close>.\<close>

fun dict_set :: "'k \<Rightarrow> 'v \<Rightarrow> ('k \<times> 'v) list \<Rightarrow> ('k \<times> 'v) list" where
  "dict_set k v [] = [(k, v)]"
| "dict_set k v ((k1, v1) # r) = (if k1 = k then (k, v) # r else (k1, v1) # dict_set k v r)"

definition dict_update :: "('k \<times> 'v) list \<Rightarrow> ('k \<times> 'v) list \<Rightarrow> ('k \<times> 'v) list" where
  "dict_update d e = fold (\<lambda>(k, v) acc. dict_set k v acc) e d"

text \<open>
  One training step. The stats file is read twice, by the poll and by the later
  \<open>get_current_metrics\<close>, and may have been rewritten in between: \<open>f1\<close> and \<open>f2\<close> are
  what the two reads find. An exception of a callee is not caught here; the step then
  returns it with the controller as the calls before it left it.
\<close>

definition training_step ::
  "'opt externals \<Rightarrow> stats_file \<Rightarrow> stats_file \<Rightarrow> real \<Rightarrow> 'opt FuzzingController
     \<Rightarrow> (py_error + (string \<times> stat_value) list) \<times> 'opt FuzzingController" where
  "training_step X f1 f2 now self =
     (case FeedbackAnalyzer_update f1 now (feedback_analyzer self) of
        (False, fa) \<Rightarrow> (Inr [], self\<lparr>feedback_analyzer := fa\<rparr>)
      | (True, fa) \<Rightarrow>
     (let self1 = self\<lparr>feedback_analyzer := fa\<rparr>;
          (state, reward) = get_state_and_reward fa
      in (case select_action X state False (agent self1) of
            (Inl e, ag) \<Rightarrow> (Inl e, self1\<lparr>agent := ag\<rparr>)
          | (Inr action, ag) \<Rightarrow>
     (let self2 = self1\<lparr>agent := ag\<rparr>
      in (case select_strategy (int action) (mutation_selector self2) of
            (Inl e, ms) \<Rightarrow> (Inl e, self2\<lparr>mutation_selector := ms\<rparr>)
          | (Inr strategy, ms) \<Rightarrow>
     (let self3 = self2\<lparr>mutation_selector := ms\<rparr>;
          done = is_done fa;
          self4 = self3\<lparr>agent := store_transition reward done (agent self3)\<rparr>;
          h = metrics_history fa
      in (case (case get_current_metrics f2 of
                  None \<Rightarrow> (Inr (), ms)
                | Some current_metrics \<Rightarrow>
                    if length h \<ge> 2 then
                      (let prev_metrics = h ! (length h - 2)
                       in update_strategy_stats
                            (coverage current_metrics - coverage prev_metrics)
                            (unique_crashes current_metrics - unique_crashes prev_metrics)
                            (paths_total current_metrics - paths_total prev_metrics) ms)
                    else (Inr (), ms)) of
            (Inl e, ms1) \<Rightarrow> (Inl e, self4\<lparr>mutation_selector := ms1\<rparr>)
          | (Inr u, ms1) \<Rightarrow>
     (let self5 = self4\<lparr>mutation_selector := ms1\<rparr>
      in (case (if length (states (agent self5)) \<ge> 32 then
                  (case PPOAgent_update X 10 32 (agent self5) of
                     (Inl e, ag1) \<Rightarrow> (Inl e, self5\<lparr>agent := ag1\<rparr>)
                   | (Inr update_stats, ag1) \<Rightarrow>
                       (Inr update_stats,
                        self5\<lparr>agent := ag1, total_updates := total_updates self5 + 1\<rparr>))
                else (Inr [], self5)) of
            (Inl e, self6) \<Rightarrow> (Inl e, self6)
          | (Inr update_stats, self6) \<Rightarrow>
     (let stats = [(''episode'', VInt (episodes self6)),
                   (''action'', VInt (int action)),
                   (''strategy'', VStr (strategy_name strategy)),
                   (''reward'', VReal reward),
                   (''state'', VList state),
                   (''done'', VBool done)];
          stats1 = (if update_stats \<noteq> []
                    then dict_update stats (map (\<lambda>(k, v). (k, VReal v)) update_stats)
                    else stats);
          self7 = (if done then self6\<lparr>episodes := episodes self6 + 1\<rparr> else self6)
      in (Inr stats1, self7)))))))))))"

text \<open>The controller as its constructor leaves it, for a given initial network and
  optimizer.\<close>

definition FuzzingController_init :: "PPONetwork \<Rightarrow> 'opt \<Rightarrow> real \<Rightarrow> 'opt FuzzingController" where
  "FuzzingController_init net opt now =
     \<lparr>agent = PPOAgent_init net opt,
      feedback_analyzer = FeedbackAnalyzer_init 10 now,
      mutation_selector = MutationStrategySelector_init,
      episodes = 0,
      total_updates = 0\<rparr>"

section \<open>Properties of the telemetry extractor\<close>

subsection \<open>The reward\<close>

lemma last_two_append:
  "(h @ [p, c]) ! (length (h @ [p, c]) - 1) = c"
  "(h @ [p, c]) ! (length (h @ [p, c]) - 2) = p"
  by (simp_all add: nth_append)







subsection \<open>The state vector\<close>

lemma get_state_vector_last_two:
  "metrics_history self = h @ [previous, current] \<Longrightarrow>
   get_state_vector self =
     [coverage current / 100,
      (coverage current - coverage previous) / 60,
      unique_crashes current / 100,
      (unique_crashes current - unique_crashes previous) / 60,
      execs_per_sec current / 1000,
      paths_total current / 1000,
      (paths_total current - paths_total previous) / 60,
      stability current / 100,
      cycles_done current / 10,
      pending_favs current / 100]"
  using last_two_append [of h previous current]
  by (simp add: get_state_vector_def Let_def)

lemma get_state_vector_ratios:
  "metrics_history self \<noteq> [] \<Longrightarrow>
   get_state_vector self ! 0 = coverage (last (metrics_history self)) / 100
   \<and> get_state_vector self ! 2 = unique_crashes (last (metrics_history self)) / 100
   \<and> get_state_vector self ! 4 = execs_per_sec (last (metrics_history self)) / 1000
   \<and> get_state_vector self ! 5 = paths_total (last (metrics_history self)) / 1000
   \<and> get_state_vector self ! 7 = stability (last (metrics_history self)) / 100
   \<and> get_state_vector self ! 8 = cycles_done (last (metrics_history self)) / 10
   \<and> get_state_vector self ! 9 = pending_favs (last (metrics_history self)) / 100"
  by (simp add: get_state_vector_def Let_def last_conv_nth split: prod.splits)

lemma get_state_vector_length: "length (get_state_vector self) = 10"
  by (simp add: get_state_vector_def Let_def split: prod.splits)

lemma get_state_vector_history_only:
  "metrics_history self = metrics_history other \<Longrightarrow>
   get_state_vector self = get_state_vector other"
  by (simp add: get_state_vector_def Let_def)

text \<open>
  Claim C10. With at least two snapshots the three rate components are the signed
  differences of the two most recent snapshots divided by 60, whatever time the analyzer
  recorded for its last poll: the time delta of the code is the constant 60.
\<close>

theorem state_vector_rates_over_60:
  "metrics_history self = h @ [previous, current] \<Longrightarrow>
   get_state_vector self ! 1 = (coverage current - coverage previous) / 60
   \<and> get_state_vector self ! 3 = (unique_crashes current - unique_crashes previous) / 60
   \<and> get_state_vector self ! 6 = (paths_total current - paths_total previous) / 60
   \<and> get_state_vector (self\<lparr>last_update_time := t\<rparr>) = get_state_vector self"
proof -
  assume h: "metrics_history self = h @ [previous, current]"
  have "metrics_history (self\<lparr>last_update_time := t\<rparr>) = metrics_history self" by simp
  then have "get_state_vector (self\<lparr>last_update_time := t\<rparr>) = get_state_vector self"
    by (rule get_state_vector_history_only)
  then show ?thesis
    by (simp add: get_state_vector_last_two [OF h])
qed

theorem state_vector_rates_over_60_witness:
  "get_state_vector
     ((FeedbackAnalyzer_init 10 1700000000)\<lparr>metrics_history :=
        [scenario_previous, scenario_current]\<rparr>) ! 1 = 2.5 / 60
   \<and> get_state_vector
     ((FeedbackAnalyzer_init 10 1700000000)\<lparr>metrics_history :=
        [scenario_previous, scenario_current]\<rparr>) ! 3 = 1 / 60
   \<and> get_state_vector
     ((FeedbackAnalyzer_init 10 1700000000)\<lparr>metrics_history :=
        [scenario_previous, scenario_current]\<rparr>) ! 6 = 30 / 60"
proof -
  let ?a = "(FeedbackAnalyzer_init 10 1700000000)\<lparr>metrics_history :=
              [scenario_previous, scenario_current]\<rparr>"
  have a: "metrics_history ?a = [] @ [scenario_previous, scenario_current]" by simp
  from state_vector_rates_over_60 [OF a, of 0] show ?thesis
    by (simp add: scenario_previous_def scenario_current_def FuzzingMetrics_init_def)
qed

text \<open>
  Claim C5. The state vector always has length 10, is the zero vector on an empty history,
  and depends on nothing but the history: two analyzers with the same history give the
  same vector.
\<close>

theorem state_vector_length_zero_pure:
  "length (get_state_vector self) = 10
   \<and> (metrics_history self = [] \<longrightarrow> get_state_vector self = [0, 0, 0, 0, 0, 0, 0, 0, 0, 0])
   \<and> (metrics_history self = metrics_history other \<longrightarrow>
        get_state_vector self = get_state_vector other)"
proof (intro conjI impI)
  show "length (get_state_vector self) = 10" by (rule get_state_vector_length)
next
  assume "metrics_history self = []"
  then show "get_state_vector self = [0, 0, 0, 0, 0, 0, 0, 0, 0, 0]"
    by (simp add: get_state_vector_def numeral_eq_Suc)
next
  assume "metrics_history self = metrics_history other"
  then show "get_state_vector self = get_state_vector other"
    by (rule get_state_vector_history_only)
qed

theorem state_vector_length_zero_pure_witness:
  "length (get_state_vector (FeedbackAnalyzer_init 10 5)) = 10
   \<and> get_state_vector (FeedbackAnalyzer_init 10 5) = [0, 0, 0, 0, 0, 0, 0, 0, 0, 0]
   \<and> get_state_vector (FeedbackAnalyzer_init 10 5) = get_state_vector (FeedbackAnalyzer_init 3 7)"
proof -
  have h1: "metrics_history (FeedbackAnalyzer_init 10 5) = []"
    by (simp add: FeedbackAnalyzer_init_def)
  have h2: "metrics_history (FeedbackAnalyzer_init 10 5) = metrics_history (FeedbackAnalyzer_init 3 7)"
    by (simp add: FeedbackAnalyzer_init_def)
  from state_vector_length_zero_pure [of "FeedbackAnalyzer_init 10 5" "FeedbackAnalyzer_init 3 7"]
    h1 h2
  show ?thesis by blast
qed

text \<open>
  Claim C3 says that every ratio component is clamped to a bounded range. The code
  divides and does not clamp: on a history whose only snapshot reports 2500.50 executions
  per second, the throughput of the repository's own test file, the normalized throughput
  is 2.5005, outside the range from 0 to 1.
\<close>

theorem state_vector_throughput_unclamped:
  "get_state_vector
     ((FeedbackAnalyzer_init 10 0)\<lparr>metrics_history :=
        [FuzzingMetrics_init\<lparr>execs_per_sec := 2500.50\<rparr>]\<rparr>) ! 4 = 2.5005
   \<and> \<not> get_state_vector
         ((FeedbackAnalyzer_init 10 0)\<lparr>metrics_history :=
            [FuzzingMetrics_init\<lparr>execs_per_sec := 2500.50\<rparr>]\<rparr>) ! 4 \<le> 1"
  by (simp add: get_state_vector_def FeedbackAnalyzer_init_def FuzzingMetrics_init_def)

text \<open>No range bounds a ratio component: the normalized throughput exceeds any given
  number on a suitable snapshot.\<close>

lemma state_vector_throughput_unbounded:
  "\<exists>self. get_state_vector self ! 4 > B"
proof -
  let ?m = "FuzzingMetrics_init\<lparr>execs_per_sec := 1000 * (\<bar>B\<bar> + 1)\<rparr>"
  let ?a = "(FeedbackAnalyzer_init 10 0)\<lparr>metrics_history := [?m]\<rparr>"
  have "get_state_vector ?a ! 4 = \<bar>B\<bar> + 1"
    by (simp add: get_state_vector_def)
  then have "get_state_vector ?a ! 4 > B" by simp
  then show ?thesis ..
qed

text \<open>
  Claim C3 as amended. On a non-empty history each ratio component is the field of the
  most recent snapshot divided by its fixed scale (100, 100, 1000, 1000, 100, 10, 100) and
  nothing else: it lies between 0 and 1 exactly when the field lies between 0 and the
  scale.
\<close>

theorem state_vector_ratios_scaled:
  assumes "metrics_history self \<noteq> []"
  shows "get_state_vector self ! 0 = coverage (last (metrics_history self)) / 100
    \<and> get_state_vector self ! 2 = unique_crashes (last (metrics_history self)) / 100
    \<and> get_state_vector self ! 4 = execs_per_sec (last (metrics_history self)) / 1000
    \<and> get_state_vector self ! 5 = paths_total (last (metrics_history self)) / 1000
    \<and> get_state_vector self ! 7 = stability (last (metrics_history self)) / 100
    \<and> get_state_vector self ! 8 = cycles_done (last (metrics_history self)) / 10
    \<and> get_state_vector self ! 9 = pending_favs (last (metrics_history self)) / 100
    \<and> ((0 \<le> get_state_vector self ! 0 \<and> get_state_vector self ! 0 \<le> 1)
         = (0 \<le> coverage (last (metrics_history self))
            \<and> coverage (last (metrics_history self)) \<le> 100))
    \<and> ((0 \<le> get_state_vector self ! 2 \<and> get_state_vector self ! 2 \<le> 1)
         = (0 \<le> unique_crashes (last (metrics_history self))
            \<and> unique_crashes (last (metrics_history self)) \<le> 100))
    \<and> ((0 \<le> get_state_vector self ! 4 \<and> get_state_vector self ! 4 \<le> 1)
         = (0 \<le> execs_per_sec (last (metrics_history self))
            \<and> execs_per_sec (last (metrics_history self)) \<le> 1000))
    \<and> ((0 \<le> get_state_vector self ! 5 \<and> get_state_vector self ! 5 \<le> 1)
         = (0 \<le> paths_total (last (metrics_history self))
            \<and> paths_total (last (metrics_history self)) \<le> 1000))
    \<and> ((0 \<le> get_state_vector self ! 7 \<and> get_state_vector self ! 7 \<le> 1)
         = (0 \<le> stability (last (metrics_history self))
            \<and> stability (last (metrics_history self)) \<le> 100))
    \<and> ((0 \<le> get_state_vector self ! 8 \<and> get_state_vector self ! 8 \<le> 1)
         = (0 \<le> cycles_done (last (metrics_history self))
            \<and> cycles_done (last (metrics_history self)) \<le> 10))
    \<and> ((0 \<le> get_state_vector self ! 9 \<and> get_state_vector self ! 9 \<le> 1)
         = (0 \<le> pending_favs (last (metrics_history self))
            \<and> pending_favs (last (metrics_history self)) \<le> 100))"
  by (simp add: get_state_vector_ratios [OF assms])

theorem state_vector_ratios_scaled_witness:
  "get_state_vector
     ((FeedbackAnalyzer_init 10 0)\<lparr>metrics_history := [scenario_previous, scenario_current]\<rparr>) ! 0
     = 12.5 / 100
   \<and> get_state_vector
     ((FeedbackAnalyzer_init 10 0)\<lparr>metrics_history := [scenario_previous, scenario_current]\<rparr>) ! 4
     = 520 / 1000"
proof -
  let ?a = "(FeedbackAnalyzer_init 10 0)\<lparr>metrics_history := [scenario_previous, scenario_current]\<rparr>"
  have ne: "metrics_history ?a \<noteq> []" by simp
  from state_vector_ratios_scaled [OF ne] show ?thesis
    by (simp add: scenario_current_def FuzzingMetrics_init_def)
qed

subsection \<open>The poll\<close>






lemma getattr_coverage_upd [simp]: "getattr a (m\<lparr>coverage := v\<rparr>) = getattr a m"
  by (cases a) simp_all

lemma getattr_paths_found_upd [simp]: "getattr a (m\<lparr>paths_found := v\<rparr>) = getattr a m"
  by (cases a) simp_all

lemma getattr_init [simp]: "getattr a FuzzingMetrics_init = 0"
  by (cases a) (simp_all add: FuzzingMetrics_init_def)








section \<open>Properties of the strategy catalog\<close>

lemma MutationStrategy_of_value: "MutationStrategy_of (strategy_value s) = Inr s"
  by (cases s) (simp_all add: MutationStrategy_of_def all_strategies_def)

lemma MutationStrategy_of_in_range:
  "0 \<le> v \<Longrightarrow> v < 8 \<Longrightarrow> \<exists>s. MutationStrategy_of v = Inr s \<and> strategy_value s = v"
proof -
  assume "0 \<le> v" and "v < 8"
  then have "v = 0 \<or> v = 1 \<or> v = 2 \<or> v = 3 \<or> v = 4 \<or> v = 5 \<or> v = 6 \<or> v = 7"
    by arith
  then show ?thesis
    by (auto simp add: MutationStrategy_of_def all_strategies_def)
qed

lemma selector_ok_stats: "selector_ok self \<Longrightarrow> \<exists>st. strategy_stats self s = Some st"
  by (cases s) (auto simp add: selector_ok_def all_strategies_def)

lemma selector_ok_init: "selector_ok MutationStrategySelector_init"
  by (simp add: selector_ok_def MutationStrategySelector_init_def all_strategies_def)

lemma select_strategy_of:
  assumes "selector_ok self"
    and "MutationStrategy_of
           (if action < 0 \<or> action \<ge> 8 then strategy_value HAVOC_MEDIUM else action) = Inr s"
  shows "fst (select_strategy action self) = Inr s"
    and "selector_ok (snd (select_strategy action self))"
    and "current_strategy (snd (select_strategy action self)) = Some s"
proof -
  from assms(1) have n: "num_strategies self = 8" by (simp add: selector_ok_def)
  from selector_ok_stats [OF assms(1)] obtain st where st: "strategy_stats self s = Some st"
    by blast
  from n st assms(2) show "fst (select_strategy action self) = Inr s"
    by (simp add: select_strategy_def Let_def)
  from n st assms(2) show "current_strategy (snd (select_strategy action self)) = Some s"
    by (simp add: select_strategy_def Let_def)
  from n st assms(2) assms(1) show "selector_ok (snd (select_strategy action self))"
    by (simp add: select_strategy_def Let_def selector_ok_def all_strategies_def)
qed

lemma update_strategy_stats_ok:
  "selector_ok self \<Longrightarrow>
   fst (update_strategy_stats cg cr pa self) = Inr ()
   \<and> selector_ok (snd (update_strategy_stats cg cr pa self))"
proof -
  assume ok: "selector_ok self"
  show ?thesis
  proof (cases "current_strategy self")
    case None
    with ok show ?thesis by (simp add: update_strategy_stats_def)
  next
    case (Some cur)
    from selector_ok_stats [OF ok] obtain st where "strategy_stats self cur = Some st" by blast
    with Some ok show ?thesis
      by (simp add: update_strategy_stats_def selector_ok_def all_strategies_def)
  qed
qed

lemma reset_stats_ok: "selector_ok self \<Longrightarrow> selector_ok (reset_stats self)"
  by (simp add: reset_stats_def selector_ok_def all_strategies_def)

text \<open>
  Claim C7. On a selector in the state its constructor sets up and its operations keep
  (eight strategies, each with a statistics entry), an action below 0 or from 8 upwards
  never raises and selects \<open>HAVOC_MEDIUM\<close>, the balanced strategy with its medium
  configuration, and an action from 0 to 7 selects the catalog entry of that value. The
  selector stays in such a state.
\<close>

theorem select_strategy_default:
  assumes "selector_ok self"
  shows "(action < 0 \<or> action \<ge> 8 \<longrightarrow>
            fst (select_strategy action self) = Inr HAVOC_MEDIUM)
    \<and> (0 \<le> action \<and> action < 8 \<longrightarrow>
          (\<exists>s. fst (select_strategy action self) = Inr s \<and> strategy_value s = action
             \<and> (\<exists>c. map_of configs s = Some c \<and> get_afl_mutation_config s = Inr c)))
    \<and> selector_ok (snd (select_strategy action self))
    \<and> get_strategy_description HAVOC_MEDIUM = ''Apply moderate random mutations (balanced)''
    \<and> get_afl_mutation_config HAVOC_MEDIUM =
        Inr [(''deterministic_mode'', CBool False), (''skip_deterministic'', CBool True),
             (''havoc_cycles'', CInt 256), (''splice_cycles'', CInt 32),
             (''havoc_stack_pow'', CInt 4)]"
proof -
  have cfg: "\<exists>c. map_of configs s = Some c \<and> get_afl_mutation_config s = Inr c" for s
    by (cases s) (simp_all add: configs_def get_afl_mutation_config_def)
  have out: "fst (select_strategy action self) = Inr HAVOC_MEDIUM"
    if "action < 0 \<or> action \<ge> 8"
    using that select_strategy_of(1) [OF assms, of action HAVOC_MEDIUM]
      MutationStrategy_of_value [of HAVOC_MEDIUM]
    by auto
  have inr: "\<exists>s. fst (select_strategy action self) = Inr s \<and> strategy_value s = action"
    if "0 \<le> action \<and> action < 8"
  proof -
    from that MutationStrategy_of_in_range [of action]
    obtain s where s: "MutationStrategy_of action = Inr s" "strategy_value s = action"
      by blast
    from that s(1) select_strategy_of(1) [OF assms, of action s]
    have "fst (select_strategy action self) = Inr s" by auto
    with s(2) show ?thesis by blast
  qed
  have ok: "selector_ok (snd (select_strategy action self))"
  proof (cases "action < 0 \<or> action \<ge> 8")
    case True
    then show ?thesis
      using select_strategy_of(2) [OF assms, of action HAVOC_MEDIUM]
        MutationStrategy_of_value [of HAVOC_MEDIUM]
      by auto
  next
    case False
    with MutationStrategy_of_in_range [of action]
    obtain s where "MutationStrategy_of action = Inr s" by auto
    with False show ?thesis
      using select_strategy_of(2) [OF assms, of action s] by auto
  qed
  have d: "get_strategy_description HAVOC_MEDIUM = ''Apply moderate random mutations (balanced)''"
    by (simp add: get_strategy_description_def descriptions_def)
  have c: "get_afl_mutation_config HAVOC_MEDIUM =
        Inr [(''deterministic_mode'', CBool False), (''skip_deterministic'', CBool True),
             (''havoc_cycles'', CInt 256), (''splice_cycles'', CInt 32),
             (''havoc_stack_pow'', CInt 4)]"
    by (simp add: get_afl_mutation_config_def configs_def)
  from out inr ok d c cfg show ?thesis by blast
qed

theorem select_strategy_default_witness:
  "fst (select_strategy 999 MutationStrategySelector_init) = Inr HAVOC_MEDIUM
   \<and> fst (select_strategy (- 1) MutationStrategySelector_init) = Inr HAVOC_MEDIUM
   \<and> fst (select_strategy 3 MutationStrategySelector_init) = Inr INTERESTING
   \<and> selector_ok (snd (select_strategy 999 MutationStrategySelector_init))"
proof -
  have a: "fst (select_strategy 999 MutationStrategySelector_init) = Inr HAVOC_MEDIUM"
    using select_strategy_default [OF selector_ok_init, of 999] by simp
  have b: "fst (select_strategy (- 1) MutationStrategySelector_init) = Inr HAVOC_MEDIUM"
    using select_strategy_default [OF selector_ok_init, of "- 1"] by simp
  obtain s where s: "fst (select_strategy 3 MutationStrategySelector_init) = Inr s"
    "strategy_value s = 3"
    using select_strategy_default [OF selector_ok_init, of 3] by auto
  from s(2) have "s = INTERESTING" by (cases s) simp_all
  with s(1) have c: "fst (select_strategy 3 MutationStrategySelector_init) = Inr INTERESTING"
    by simp
  have d: "selector_ok (snd (select_strategy 999 MutationStrategySelector_init))"
    using select_strategy_default [OF selector_ok_init, of 999] by simp
  from a b c d show ?thesis by simp
qed

section \<open>Properties of the PPO trainer\<close>

subsection \<open>Generalized advantage estimation\<close>

text \<open>
  The backward loop, started at index \<open>k\<close> with the entries from \<open>k\<close> upwards already
  computed: it raises nothing and leaves every entry equal to its delta plus the discounted
  entry after it.
\<close>

lemma gae_loop_recurrence:
  fixes g lam :: real and vals rews :: "real list" and dns :: "bool list"
  defines "R \<equiv> \<lambda>t a. (rews ! t + g * vals ! Suc t * (1 - (if dns ! t then 1 else 0)) - vals ! t)
                        + g * lam * (1 - (if dns ! t then 1 else 0)) * a"
  assumes len: "length dns = n" "length rews = n" "length vals = Suc n"
    and nv: "vals ! n = next_value"
  shows "length adv = n \<Longrightarrow> k \<le> n \<Longrightarrow>
         last_gae = (if k < n then adv ! k else 0) \<Longrightarrow>
         (\<forall>t. k \<le> t \<and> t < n \<longrightarrow> adv ! t = R t (if Suc t < n then adv ! Suc t else 0)) \<Longrightarrow>
         \<exists>adv'. gae_loop g lam vals rews dns next_value (rev [0..<k]) adv last_gae = Inr adv'
                \<and> length adv' = n
                \<and> (\<forall>t < n. adv' ! t = R t (if Suc t < n then adv' ! Suc t else 0))"
proof (induction k arbitrary: adv last_gae)
  case 0
  then show ?case by simp
next
  case (Suc k)
  from Suc.prems(2) have kn: "k < n" by simp
  let ?nnt = "1 - (if dns ! k then 1 else 0) :: real"
  let ?last1 = "(rews ! k + g * vals ! Suc k * ?nnt - vals ! k) + g * lam * ?nnt * last_gae"
  let ?adv1 = "adv[k := ?last1]"
  have nvt: "(if k = length rews - 1 then next_value else vals ! (k + 1)) = vals ! Suc k"
    using kn len(2) nv by (auto simp add: Suc_diff_Suc)
  have step: "gae_loop g lam vals rews dns next_value (rev [0..<Suc k]) adv last_gae
              = gae_loop g lam vals rews dns next_value (rev [0..<k]) ?adv1 ?last1"
    using kn len nvt by (simp add: Let_def)
  have l1: "length ?adv1 = n" using Suc.prems(1) by simp
  have k1: "k \<le> n" using kn by simp
  have g1: "?last1 = (if k < n then ?adv1 ! k else 0)"
    using kn Suc.prems(1) by simp
  have lg: "last_gae = (if Suc k < n then adv ! Suc k else 0)"
    using Suc.prems(3) by simp
  have r1: "\<forall>t. k \<le> t \<and> t < n \<longrightarrow> ?adv1 ! t = R t (if Suc t < n then ?adv1 ! Suc t else 0)"
  proof (intro allI impI)
    fix t assume t: "k \<le> t \<and> t < n"
    show "?adv1 ! t = R t (if Suc t < n then ?adv1 ! Suc t else 0)"
    proof (cases "t = k")
      case True
      have "?adv1 ! k = ?last1" using kn Suc.prems(1) by simp
      also have "\<dots> = R k last_gae" by (simp add: R_def)
      also have "\<dots> = R k (if Suc k < n then ?adv1 ! Suc k else 0)" using lg by simp
      finally show ?thesis using True by simp
    next
      case False
      with t have "Suc k \<le> t \<and> t < n" by simp
      with Suc.prems(4) have "adv ! t = R t (if Suc t < n then adv ! Suc t else 0)" by blast
      with False t show ?thesis by simp
    qed
  qed
  from Suc.IH [OF l1 k1 g1 r1] step show ?case by simp
qed

lemma compute_gae_single:
  "rewards self = [r] \<Longrightarrow> values' self = [v] \<Longrightarrow> dones self = [True] \<Longrightarrow>
   compute_gae next_value self = Inr ([r - v], [r])"
  by (simp add: compute_gae_def np_add_def Let_def)

text \<open>
  Claim C6. On a buffer whose rewards, values and terminal flags have the same length the
  computation raises nothing, every advantage is
  \<open>delta_t + gamma * lambda * (1 - done_t) * A_(t+1)\<close> with
  \<open>delta_t = r_t + gamma * V_(t+1) * (1 - done_t) - V_t\<close>, where the value after the last
  step is the bootstrap value and the advantage after the last step is 0, and the returns
  are the advantages plus the values. On a single terminal transition the advantage is the
  reward minus the stored value, whatever the bootstrap value.
\<close>

theorem compute_gae_recurrence:
  assumes "length (rewards self) = n" and "length (values' self) = n"
    and "length (dones self) = n"
  shows "(\<exists>adv. compute_gae next_value self = Inr (adv, map2 (+) adv (values' self))
            \<and> length adv = n
            \<and> (\<forall>t < n. adv ! t =
                  (rewards self ! t
                   + gamma self * (values' self @ [next_value]) ! Suc t
                       * (1 - (if dones self ! t then 1 else 0))
                   - values' self ! t)
                  + gamma self * gae_lambda self * (1 - (if dones self ! t then 1 else 0))
                      * (if Suc t < n then adv ! Suc t else 0)))
     \<and> (rewards self = [r] \<and> values' self = [v] \<and> dones self = [True] \<longrightarrow>
          compute_gae next_value self = Inr ([r - v], [r]))"
proof
  let ?vals = "values' self @ [next_value]"
  have lv: "length ?vals = Suc n" using assms(2) by simp
  have nv: "?vals ! n = next_value" using assms(2) by (simp add: nth_append)
  have l0: "length (replicate n (0::real)) = n" by simp
  from gae_loop_recurrence [OF assms(3) assms(1) lv nv l0, of n 0 "gamma self" "gae_lambda self"]
  obtain adv where loop: "gae_loop (gamma self) (gae_lambda self) ?vals (rewards self)
        (dones self) next_value (rev [0..<n]) (replicate n 0) 0 = Inr adv"
    and la: "length adv = n"
    and rec: "\<forall>t < n. adv ! t =
                  (rewards self ! t
                   + gamma self * ?vals ! Suc t * (1 - (if dones self ! t then 1 else 0))
                   - ?vals ! t)
                  + gamma self * gae_lambda self * (1 - (if dones self ! t then 1 else 0))
                      * (if Suc t < n then adv ! Suc t else 0)"
    by auto
  have "np_add adv (butlast ?vals) = Inr (map2 (+) adv (values' self))"
    using la assms(2) by (simp add: np_add_def)
  with loop have "compute_gae next_value self = Inr (adv, map2 (+) adv (values' self))"
    using assms(1) by (simp add: compute_gae_def Let_def)
  moreover have "\<forall>t < n. ?vals ! t = values' self ! t"
    using assms(2) by (simp add: nth_append)
  ultimately show "\<exists>adv. compute_gae next_value self = Inr (adv, map2 (+) adv (values' self))
            \<and> length adv = n
            \<and> (\<forall>t < n. adv ! t =
                  (rewards self ! t
                   + gamma self * ?vals ! Suc t * (1 - (if dones self ! t then 1 else 0))
                   - values' self ! t)
                  + gamma self * gae_lambda self * (1 - (if dones self ! t then 1 else 0))
                      * (if Suc t < n then adv ! Suc t else 0))"
    using la rec by auto
next
  show "rewards self = [r] \<and> values' self = [v] \<and> dones self = [True] \<longrightarrow>
          compute_gae next_value self = Inr ([r - v], [r])"
    using compute_gae_single by blast
qed

theorem compute_gae_recurrence_witness:
  "compute_gae 7
     ((PPOAgent_init (PPONetwork_zero 10 8 2) ())\<lparr>rewards := [2], values' := [1 / 2],
        dones := [True]\<rparr>)
   = Inr ([3 / 2], [2])"
proof -
  let ?a = "(PPOAgent_init (PPONetwork_zero 10 8 2) ())\<lparr>rewards := [2], values' := [1 / 2],
              dones := [True]\<rparr>"
  have "length (rewards ?a) = 1" "length (values' ?a) = 1" "length (dones ?a) = 1"
    by simp_all
  from compute_gae_recurrence [OF this, of 7 2 "1 / 2"]
  have "compute_gae 7 ?a = Inr ([2 - 1 / 2], [2])" by simp
  then show ?thesis by simp
qed

subsection \<open>The update\<close>


text \<open>A call on a non-empty buffer that returns statistics returns five of them and has
  cleared the buffer, whatever the library does.\<close>

lemma PPOAgent_update_trains:
  assumes "states self \<noteq> []"
    and "PPOAgent_update X n_epochs batch_size self = (Inr stats, self')"
  shows "length stats = 5 \<and> states self' = [] \<and> actions self' = [] \<and> log_probs self' = []
    \<and> rewards self' = [] \<and> values' self' = [] \<and> dones self' = []"
  using assms
  by (auto simp add: PPOAgent_update_def Let_def clear_buffer_def
      split: sum.splits prod.splits option.splits if_splits)

lemma forward_zero:
  "forward (PPONetwork_zero 10 8 2) (replicate 10 0) = Inr (replicate 8 0, [0])"
  by (simp add: forward_def PPONetwork_zero_def Linear_zero_def Linear_call_def relu_def
      numeral_eq_Suc)

lemma softmax_zero: "softmax (replicate 8 0) = replicate 8 (1 / 8)"
  by (simp add: softmax_def sum_list_replicate)

lemma argmax_replicate_8: "argmax (replicate 8 x) = Inr 0"
  by (simp add: argmax_def numeral_eq_Suc)

lemma get_action_zero:
  "get_action plain_externals (PPONetwork_zero 10 8 2) (replicate 10 0) True
     = Inr (0, ln (1 / 8), [0])"
  by (simp add: get_action_def forward_zero softmax_zero argmax_replicate_8 plain_externals_def)

lemma one_transition_agent_eq:
  "one_transition_agent =
     (PPOAgent_init (PPONetwork_zero 10 8 2) ())\<lparr>
        states := [replicate 10 0], actions := [0], log_probs := [ln (1 / 8)],
        rewards := [1], values' := [0], dones := [False]\<rparr>"
  by (simp add: one_transition_agent_def store_transition_def select_action_def
      get_action_zero item_def PPOAgent_init_def)


subsection \<open>Checkpoints\<close>

text \<open>
  Claim C8. Loading the checkpoint an agent saved, into that agent or any agent whose
  network has the same shape, succeeds and restores the network and the optimizer, so a
  deterministic decision on any state gives the same action, log-probability and value as
  the saving agent gives, and \<open>select_action\<close> returns the same action.
\<close>

theorem checkpoint_round_trip:
  assumes "network_shape (network other) = network_shape (network self)"
  shows "\<exists>loaded. load filepath (save filepath self fs) other = Inr loaded
    \<and> network loaded = network self
    \<and> optimizer loaded = optimizer self
    \<and> get_action X (network loaded) state True = get_action X (network self) state True
    \<and> fst (select_action X state True loaded) = fst (select_action X state True self)"
proof -
  let ?loaded = "other\<lparr>network := network self, optimizer := optimizer self\<rparr>"
  have l: "load filepath (save filepath self fs) other = Inr ?loaded"
    using assms by (simp add: load_def save_def load_state_dict_def)
  have s: "fst (select_action X state True ?loaded) = fst (select_action X state True self)"
    by (simp add: select_action_def Let_def split: sum.splits prod.splits)
  from l s show ?thesis by simp
qed

theorem checkpoint_round_trip_witness:
  "\<exists>loaded.
     load ''agent.pt'' (save ''agent.pt'' one_transition_agent Map.empty)
       (one_transition_agent\<lparr>network :=
          (PPONetwork_zero 10 8 2)\<lparr>critic_out := \<lparr>weight = [[1]], bias = [1]\<rparr>\<rparr>\<rparr>)
       = Inr loaded
     \<and> network loaded = PPONetwork_zero 10 8 2
     \<and> get_action plain_externals (network loaded) (replicate 10 0) True
         = get_action plain_externals (network one_transition_agent) (replicate 10 0) True"
proof -
  let ?other = "one_transition_agent\<lparr>network :=
          (PPONetwork_zero 10 8 2)\<lparr>critic_out := \<lparr>weight = [[1]], bias = [1]\<rparr>\<rparr>\<rparr>"
  have sh: "network_shape (network ?other) = network_shape (network one_transition_agent)"
    by (simp add: one_transition_agent_eq PPOAgent_init_def network_shape_def Linear_shape_def
        PPONetwork_zero_def Linear_zero_def)
  have n: "network one_transition_agent = PPONetwork_zero 10 8 2"
    by (simp add: one_transition_agent_eq PPOAgent_init_def)
  from checkpoint_round_trip [OF sh, of "''agent.pt''" Map.empty plain_externals "replicate 10 0"]
  show ?thesis by (auto simp add: n)
qed

subsection \<open>A first training step\<close>

text \<open>The step a freshly built controller takes on the cut-off stats file: one transition is
  stored, the first strategy is selected, and no update runs.\<close>

lemma replicate_10: "replicate 10 x = [x, x, x, x, x, x, x, x, x, x]"
  by (simp add: numeral_eq_Suc)

lemma get_action_zero_sampled:
  "get_action plain_externals (PPONetwork_zero 10 8 2) (replicate 10 0) False
     = Inr (0, ln (1 / 8), [0])"
  by (simp add: get_action_def forward_zero softmax_zero plain_externals_def)

lemma training_step_first:
  "training_step plain_externals (Content partial_stats_text) (Content partial_stats_text) 1
     (FuzzingController_init (PPONetwork_zero 10 8 2) () 0)
   = (Inr [(''episode'', VInt 0), (''action'', VInt 0), (''strategy'', VStr ''BITFLIP''),
           (''reward'', VReal 0), (''state'', VList (replicate 10 0)), (''done'', VBool False)],
      \<lparr>agent = (PPOAgent_init (PPONetwork_zero 10 8 2) ())\<lparr>
                 states := [replicate 10 0], actions := [0], log_probs := [ln (1 / 8)],
                 rewards := [0], values' := [0], dones := [False]\<rparr>,
       feedback_analyzer = snd (FeedbackAnalyzer_update (Content partial_stats_text) 1
                                  (FeedbackAnalyzer_init 10 0)),
       mutation_selector = snd (select_strategy 0 MutationStrategySelector_init),
       episodes = 0, total_updates = 0\<rparr>)"
proof -
  have poll: "FeedbackAnalyzer_update (Content partial_stats_text) 1 (FeedbackAnalyzer_init 10 0) =
     (True,
      \<lparr>history_size = 10,
       metrics_history = [FuzzingMetrics_init\<lparr>total_execs := 1000\<rparr>],
       last_update_time = 1,
       baseline_metrics = Some (FuzzingMetrics_init\<lparr>total_execs := 1000\<rparr>)\<rparr>)"
    by (simp add: FeedbackAnalyzer_update_def get_current_metrics_def parse_fuzzer_stats_def
      patterns_def match_here_def convert_def py_int_def py_float_def is_digit_def
      is_space_def is_digit_or_dot_def digits_value_def FeedbackAnalyzer_init_def
      FuzzingMetrics_init_def partial_stats_text_def)
  have sr: "get_state_and_reward
      \<lparr>history_size = 10,
       metrics_history = [FuzzingMetrics_init\<lparr>total_execs := 1000\<rparr>],
       last_update_time = 1,
       baseline_metrics = Some (FuzzingMetrics_init\<lparr>total_execs := 1000\<rparr>)\<rparr>
      = (replicate 10 0, 0)"
    by (simp add: get_state_and_reward_def get_state_vector_def compute_reward_def
        FuzzingMetrics_init_def replicate_10)
  have sa: "select_action plain_externals (replicate 10 0) False
              (PPOAgent_init (PPONetwork_zero 10 8 2) ())
            = (Inr 0, (PPOAgent_init (PPONetwork_zero 10 8 2) ())\<lparr>
                 states := [replicate 10 0], actions := [0], log_probs := [ln (1 / 8)],
                 values' := [0]\<rparr>)"
    by (simp add: select_action_def get_action_zero_sampled item_def PPOAgent_init_def)
  have ss: "fst (select_strategy 0 MutationStrategySelector_init) = Inr BITFLIP"
    by (simp add: select_strategy_def MutationStrategySelector_init_def MutationStrategy_of_def
        all_strategies_def StrategyStats_init_def)
  obtain ms where ms: "select_strategy 0 MutationStrategySelector_init = (Inr BITFLIP, ms)"
    using ss by (cases "select_strategy 0 MutationStrategySelector_init") simp
  have cur: "current_strategy ms = Some BITFLIP" and st: "strategy_stats ms BITFLIP \<noteq> None"
    using ms
    by (auto simp add: select_strategy_def MutationStrategySelector_init_def MutationStrategy_of_def
        all_strategies_def StrategyStats_init_def Let_def)
  have gcm: "get_current_metrics (Content partial_stats_text)
               = Some (FuzzingMetrics_init\<lparr>total_execs := 1000\<rparr>)"
    by (simp add: get_current_metrics_def parse_fuzzer_stats_def
      patterns_def match_here_def convert_def py_int_def py_float_def is_digit_def
      is_space_def is_digit_or_dot_def digits_value_def
      FuzzingMetrics_init_def partial_stats_text_def)
  have dn: "\<not> is_done \<lparr>history_size = 10,
       metrics_history = [FuzzingMetrics_init\<lparr>total_execs := 1000\<rparr>],
       last_update_time = 1,
       baseline_metrics = Some (FuzzingMetrics_init\<lparr>total_execs := 1000\<rparr>)\<rparr>"
    by (simp add: is_done_def)
  have bufs: "rewards (PPOAgent_init (PPONetwork_zero 10 8 2) ()) = []"
    "dones (PPOAgent_init (PPONetwork_zero 10 8 2) ()) = []"
    by (simp_all add: PPOAgent_init_def)
  have ms2: "snd (select_strategy 0 MutationStrategySelector_init) = ms"
    using ms by simp
  show ?thesis
    unfolding training_step_def
    by (simp add: FuzzingController_init_def poll sr sa ms ms2 gcm dn store_transition_def
        bufs Let_def update_strategy_stats_def)
qed

subsection \<open>The update threshold of the control loop\<close>






end
